theory Spec2Isabelle
  imports Main "HOL-Library.Sublist" "HOL-Library.Word"
begin

section \<open>Strings\<close>

text \<open>
  JavaScript strings are modelled as \<^typ>\<open>string\<close>. The three string operations the
  server uses are \<^verbatim>\<open>includes\<close>, \<^verbatim>\<open>split\<close> with a one-character separator and
  \<^verbatim>\<open>replace\<close> with a string pattern (which replaces the first occurrence only).
\<close>

fun str_includes :: "string \<Rightarrow> string \<Rightarrow> bool" where
  "str_includes [] t = (t = [])"
| "str_includes (c # s) t = (prefix t (c # s) \<or> str_includes s t)"

fun split_on :: "char \<Rightarrow> string \<Rightarrow> string list" where
  "split_on sep [] = [[]]"
| "split_on sep (c # s) =
     (if c = sep then [] # split_on sep s
      else (case split_on sep s of [] \<Rightarrow> [[c]] | r # rs \<Rightarrow> (c # r) # rs))"

fun replace :: "string \<Rightarrow> string \<Rightarrow> string \<Rightarrow> string" where
  "replace pat rep [] = (if pat = [] then rep else [])"
| "replace pat rep (c # s) =
     (if prefix pat (c # s) then rep @ drop (length pat) (c # s)
      else c # replace pat rep s)"

section \<open>JavaScript values and errors\<close>

text \<open>
  The values that travel through \<^verbatim>\<open>send\<close>, \<^verbatim>\<open>getQuery\<close> and the payload decoder.
  \<open>JNum\<close> stands for the integral numbers (the safe integers print in decimal),
  \<open>JBytes\<close> for a \<^verbatim>\<open>Uint8Array\<close>, \<open>JFunction\<close> carries the source text that
  \<^verbatim>\<open>toString\<close> returns and \<open>JSymbol\<close> the description. An object is the list of its
  own properties in insertion order.
\<close>

datatype jsval =
    JUndefined
  | JNull
  | JBool bool
  | JNum int
  | JBigInt int
  | JStr string
  | JBytes "8 word list"
  | JFunction string
  | JSymbol string
  | JArr "jsval list"
  | JObj "(string \<times> jsval) list"

record js_error =
  name :: string
  message :: string

definition Error :: "string \<Rightarrow> js_error" where
  "Error msg = \<lparr>name = ''Error'', message = msg\<rparr>"

definition TypeError :: "string \<Rightarrow> js_error" where
  "TypeError msg = \<lparr>name = ''TypeError'', message = msg\<rparr>"

text \<open>\<^verbatim>\<open>error.message = prefix + error.message\<close>, the idiom of every catch block.\<close>

definition prefix_message :: "string \<Rightarrow> js_error \<Rightarrow> js_error" where
  "prefix_message p e = e\<lparr>message := p @ message e\<rparr>"


subsection \<open>Number.prototype.toString and JSON.stringify\<close>

definition digit_char :: "nat \<Rightarrow> char" where
  "digit_char n = ''0123456789abcdef'' ! (n mod 16)"

function show_nat :: "nat \<Rightarrow> string" where
  "show_nat n = (if n < 10 then [digit_char n] else show_nat (n div 10) @ [digit_char (n mod 10)])"
  by pat_completeness auto
termination
  by (relation "measure id") auto

declare show_nat.simps [simp del]

definition show_int :: "int \<Rightarrow> string" where
  "show_int i = (if i < 0 then CHR ''-'' # show_nat (nat (- i)) else show_nat (nat i))"

text \<open>
  The string quoting of \<^verbatim>\<open>JSON.stringify\<close>: the quote, the backslash and the control
  characters are escaped.
\<close>

definition escape_char :: "char \<Rightarrow> string" where
  "escape_char c =
     (if c = CHR 0x22 then [CHR 0x5C, CHR 0x22]
      else if c = CHR 0x5C then [CHR 0x5C, CHR 0x5C]
      else if c = CHR 0x08 then [CHR 0x5C, CHR ''b'']
      else if c = CHR 0x09 then [CHR 0x5C, CHR ''t'']
      else if c = CHR 0x0A then [CHR 0x5C, CHR ''n'']
      else if c = CHR 0x0C then [CHR 0x5C, CHR ''f'']
      else if c = CHR 0x0D then [CHR 0x5C, CHR ''r'']
      else if (of_char c :: nat) < 32
        then [CHR 0x5C, CHR ''u'', CHR ''0'', CHR ''0'',
              digit_char (of_char c div 16), digit_char (of_char c mod 16)]
      else [c])"

definition quote :: "string \<Rightarrow> string" where
  "quote s = [CHR 0x22] @ concat (map escape_char s) @ [CHR 0x22]"

fun join :: "string \<Rightarrow> string list \<Rightarrow> string" where
  "join sep [] = []"
| "join sep [x] = x"
| "join sep (x # y # xs) = x @ sep @ join sep (y # xs)"

text \<open>
  \<open>json_text\<close> is the text \<^verbatim>\<open>JSON.stringify\<close> produces; \<open>None\<close> is its result
  \<^verbatim>\<open>undefined\<close>. Inside an array a value without a text prints as \<^verbatim>\<open>null\<close>, inside an
  object its property is left out. A typed array prints as an object keyed by index.
\<close>

fun indexed :: "nat \<Rightarrow> 8 word list \<Rightarrow> string list" where
  "indexed i [] = []"
| "indexed i (b # bs) = (quote (show_nat i) @ '':'' @ show_nat (unat b)) # indexed (Suc i) bs"

fun json_text :: "jsval \<Rightarrow> string option"
  and json_elems :: "jsval list \<Rightarrow> string list"
  and json_props :: "(string \<times> jsval) list \<Rightarrow> string list"
where
  "json_text JUndefined = None"
| "json_text JNull = Some ''null''"
| "json_text (JBool b) = Some (if b then ''true'' else ''false'')"
| "json_text (JNum n) = Some (show_int n)"
| "json_text (JBigInt n) = None"
| "json_text (JStr s) = Some (quote s)"
| "json_text (JBytes bs) = Some (''{'' @ join '','' (indexed 0 bs) @ ''}'')"
| "json_text (JFunction f) = None"
| "json_text (JSymbol d) = None"
| "json_text (JArr xs) = Some (''['' @ join '','' (json_elems xs) @ '']'')"
| "json_text (JObj ps) = Some (''{'' @ join '','' (json_props ps) @ ''}'')"
| "json_elems [] = []"
| "json_elems (x # xs) = (case json_text x of None \<Rightarrow> ''null'' | Some t \<Rightarrow> t) # json_elems xs"
| "json_props [] = []"
| "json_props (p # ps) =
     (case json_text (snd p) of
        None \<Rightarrow> json_props ps
      | Some t \<Rightarrow> (quote (fst p) @ '':'' @ t) # json_props ps)"

text \<open>\<^verbatim>\<open>JSON.stringify\<close> throws a TypeError when it meets a BigInt.\<close>

fun has_bigint :: "jsval \<Rightarrow> bool"
  and has_bigint_list :: "jsval list \<Rightarrow> bool"
  and has_bigint_props :: "(string \<times> jsval) list \<Rightarrow> bool"
where
  "has_bigint (JBigInt n) = True"
| "has_bigint (JArr xs) = has_bigint_list xs"
| "has_bigint (JObj ps) = has_bigint_props ps"
| "has_bigint JUndefined = False"
| "has_bigint JNull = False"
| "has_bigint (JBool b) = False"
| "has_bigint (JNum n) = False"
| "has_bigint (JStr s) = False"
| "has_bigint (JBytes bs) = False"
| "has_bigint (JFunction f) = False"
| "has_bigint (JSymbol d) = False"
| "has_bigint_list [] = False"
| "has_bigint_list (x # xs) = (has_bigint x \<or> has_bigint_list xs)"
| "has_bigint_props [] = False"
| "has_bigint_props (p # ps) = (has_bigint (snd p) \<or> has_bigint_props ps)"

definition JSON_stringify :: "jsval \<Rightarrow> js_error + string option" where
  "JSON_stringify v =
     (if has_bigint v then Inl (TypeError ''Do not know how to serialize a BigInt'')
      else Inr (json_text v))"

section \<open>Headers, requests and the state of a request\<close>

text \<open>
  A \<^verbatim>\<open>Headers\<close> object: one value per name, names compared without case (they are
  stored in lower case).
\<close>

type_synonym headers = "(string \<times> string) list"

definition lower_char :: "char \<Rightarrow> char" where
  "lower_char c =
     (if (65::nat) \<le> of_char c \<and> (of_char c :: nat) \<le> 90 then char_of (of_char c + (32::nat)) else c)"

definition lower :: "string \<Rightarrow> string" where
  "lower s = map lower_char s"

fun headers_set :: "string \<Rightarrow> string \<Rightarrow> headers \<Rightarrow> headers" where
  "headers_set k v [] = [(lower k, v)]"
| "headers_set k v (p # hs) =
     (if fst p = lower k then (fst p, v) # hs else p # headers_set k v hs)"

definition headers_get :: "string \<Rightarrow> headers \<Rightarrow> string option" where
  "headers_get k hs = map_of hs (lower k)"

datatype body = Text string | Bytes "8 word list"

record response =
  rsp_status :: int
  rsp_headers :: headers
  rsp_body :: "body option"

text \<open>
  The incoming request as the transport delivers it. \<open>url\<close> is the request target, query
  string included; \<open>req_body\<close> is the body text as \<^verbatim>\<open>TextDecoder\<close> returns it.
\<close>

record request =
  url :: string
  req_method :: string
  req_headers :: headers
  req_body :: string

text \<open>
  What a request mutates while it is handled: the fields \<^verbatim>\<open>httpStatus\<close>,
  \<^verbatim>\<open>contentType\<close> and \<^verbatim>\<open>response.headers\<close> that \<^verbatim>\<open>transformRequest\<close> puts on the
  request object (\<open>None\<close> is \<^verbatim>\<open>undefined\<close>), the responses written with
  \<^verbatim>\<open>respond\<close> in call order, the errors printed with \<^verbatim>\<open>console.error\<close>, the
  rejections of promises nobody awaits, and the reading of the clock.
\<close>

record hstate =
  httpStatus :: "int option"
  contentType :: "string option"
  response_headers :: headers
  responses :: "response list"
  console :: "js_error list"
  rejections :: "js_error list"
  clock :: string

text \<open>A statement or call either returns or throws.\<close>

datatype completion = Normal | Throw js_error

section \<open>Handlers and route tables\<close>

text \<open>
  Modelled from the spec: \<^verbatim>\<open>types.ts\<close> is not among the sources. The spec describes a
  schema as required field names and expected primitive types; the code reads its
  \<^verbatim>\<open>properties\<close>.
\<close>

record schema =
  properties :: "(string \<times> string) list"
  required :: "string list"

record validation_schema =
  vs_headers :: "schema option"
  vs_params :: "schema option"
  vs_querystring :: "schema option"
  vs_body :: "schema option"

record handler_options =
  methods :: "string list option"
  validationSchema :: "validation_schema option"

text \<open>
  A controller module: its \<^verbatim>\<open>options\<close> and its \<^verbatim>\<open>default\<close> function, which is code
  of the application: any function of the request and the request state that returns or
  throws.
\<close>

record controller =
  c_options :: "handler_options option"
  c_default :: "request \<Rightarrow> hstate \<Rightarrow> completion \<times> hstate"

record dynamic_controller =
  dc_url :: string
  dc_controller :: controller

text \<open>
  A page module. Evaluating its props and rendering its component use modules that are
  not among the sources (the renderer and the built-in templates); \<open>pg_html\<close> is the
  HTML text they produce for a request, or the error they raise.
\<close>

record page =
  pg_html :: "request \<Rightarrow> js_error + string"

record dynamic_page =
  dp_url :: string
  dp_page :: page

text \<open>
  The dispatcher's own calls are observed in a log that no function reads: entering
  \<^verbatim>\<open>handleRoute\<close>, calling a middleware's \<^verbatim>\<open>default\<close>, calling a controller's
  \<^verbatim>\<open>default\<close> (with the key it is registered under) and calling \<^verbatim>\<open>sendHTML\<close>.
  Controllers and pages work on the request state only, so they cannot write to it.
\<close>

datatype call =
    Call_handleRoute
  | Call_middleware string
  | Call_controller string
  | Call_sendHTML string
  | Call_sendStatic string

record world =
  st :: hstate
  call_log :: "call list"

text \<open>
  A middleware module: \<^verbatim>\<open>default(request, next)\<close> is application code that receives the
  continuation.
\<close>

record middleware =
  m_options :: "handler_options option"
  m_default :: "request \<Rightarrow> (js_error option \<Rightarrow> world \<Rightarrow> completion \<times> world) \<Rightarrow> world
     \<Rightarrow> completion \<times> world"

text \<open>
  The fields of the \<^verbatim>\<open>Fastro\<close> instance that request handling reads. The two
  \<^verbatim>\<open>Map\<close>s of middleware are iterated in insertion order, hence a list of entries.
\<close>

record server =
  appStatus :: string
  corsEnabled :: bool
  controller :: "string \<Rightarrow> controller option"
  dynamicController :: "dynamic_controller list"
  pages :: "string \<Rightarrow> page option"
  dynamicPage :: "dynamic_page list"
  staticFiles :: "string \<Rightarrow> jsval option"
  middlewares :: "(string \<times> middleware) list"

text \<open>
  The imports from \<^verbatim>\<open>./constant.ts\<close> and \<^verbatim>\<open>./utils.ts\<close>, which are not among the
  sources, are parameters of the model: every theorem holds for all their values.
\<close>

record deps =
  NOT_FOUND :: string
  CONTENT_TYPE :: string
  FASTRO_VERSION :: string
  createError :: "string \<Rightarrow> js_error \<Rightarrow> js_error"
  validateObject :: "jsval \<Rightarrow> schema option \<Rightarrow> js_error + unit"

section \<open>The response sender\<close>

definition respond :: "response \<Rightarrow> hstate \<Rightarrow> hstate" where
  "respond r s = s\<lparr>responses := responses s @ [r]\<rparr>"

text \<open>The serialization of the payload at the head of \<^verbatim>\<open>send\<close>.\<close>

definition send_body :: "jsval \<Rightarrow> js_error + body option" where
  "send_body payload =
     (case payload of
        JStr t \<Rightarrow> Inr (Some (Text t))
      | JBytes b \<Rightarrow> Inr (Some (Bytes b))
      | JUndefined \<Rightarrow> Inr (Some (Text ''undefined''))
      | JArr xs \<Rightarrow> map_sum id (map_option Text) (JSON_stringify payload)
      | JNum n \<Rightarrow> Inr (Some (Text (show_int n)))
      | JBool b \<Rightarrow> Inr (Some (Text (if b then ''true'' else ''false'')))
      | JBigInt n \<Rightarrow> Inr (Some (Text (show_int n)))
      | JFunction src \<Rightarrow> Inr (Some (Text src))
      | JSymbol d \<Rightarrow> Inr (Some (Text (''Symbol('' @ d @ '')'')))
      | _ \<Rightarrow> map_sum id (map_option Text) (JSON_stringify payload))"

text \<open>The body of the \<^verbatim>\<open>try\<close> block of \<^verbatim>\<open>send\<close>.\<close>

definition send_try :: "server \<Rightarrow> jsval \<Rightarrow> int \<Rightarrow> headers \<Rightarrow> hstate \<Rightarrow> completion \<times> hstate" where
  "send_try srv payload status headers s =
     (case send_body payload of
        Inl error \<Rightarrow> (Throw error, s)
      | Inr body \<Rightarrow>
          (let cookie = headers_get ''set-cookie'' (response_headers s);
               h1 = (case cookie of
                       Some c \<Rightarrow> if c \<noteq> [] then headers_set ''Set-Cookie'' c headers else headers
                     | None \<Rightarrow> headers);
               h2 = headers_set ''Connection'' ''keep-alive'' h1;
               h3 = headers_set ''Date'' (clock s) h2;
               h4 = headers_set ''x-powered-by'' (appStatus srv) h3;
               h5 = (if corsEnabled srv
                     then headers_set ''Access-Control-Allow-Methods'' ''*''
                            (headers_set ''Access-Control-Allow-Headers'' ''*''
                              (headers_set ''Access-Control-Allow-Origin'' ''*'' h4))
                     else h4)
           in (Normal, respond \<lparr>rsp_status = status, rsp_headers = h5, rsp_body = body\<rparr> s)))"

text \<open>
  \<^verbatim>\<open>send\<close>: the defaults of the parameters (\<^verbatim>\<open>status = 200\<close>,
  \<^verbatim>\<open>headers = new Headers()\<close>), the \<^verbatim>\<open>try\<close> block, and the \<^verbatim>\<open>catch\<close> that prefixes
  the message and prints the error.
\<close>

definition send :: "server \<Rightarrow> jsval \<Rightarrow> int option \<Rightarrow> headers option \<Rightarrow> hstate \<Rightarrow> completion \<times> hstate" where
  "send srv payload status headers s =
     (case send_try srv payload (case status of None \<Rightarrow> 200 | Some n \<Rightarrow> n)
             (case headers of None \<Rightarrow> [] | Some h \<Rightarrow> h) s of
        (Throw error, s') \<Rightarrow>
          (Normal, s'\<lparr>console := console s' @ [prefix_message ''SEND_ERROR: '' error]\<rparr>)
      | (Normal, s') \<Rightarrow> (Normal, s'))"

section \<open>The request context\<close>





definition request_json :: "deps \<Rightarrow> server \<Rightarrow> jsval \<Rightarrow> hstate \<Rightarrow> completion \<times> hstate" where
  "request_json d srv payload s =
     send srv payload (httpStatus s) (Some (headers_set (CONTENT_TYPE d) ''application/json'' [])) s"



section \<open>Objects\<close>

text \<open>
  \<^verbatim>\<open>obj[key] = value\<close> and \<^verbatim>\<open>obj[key]\<close> on an object whose keys are ordinary strings
  (neither integer-like nor names of \<^verbatim>\<open>Object.prototype\<close>): a property that exists keeps
  its place, a new one goes last, a missing one reads as \<^verbatim>\<open>undefined\<close>.
\<close>

fun obj_set :: "string \<Rightarrow> jsval \<Rightarrow> (string \<times> jsval) list \<Rightarrow> (string \<times> jsval) list" where
  "obj_set k v [] = [(k, v)]"
| "obj_set k v (p # ps) = (if fst p = k then (k, v) # ps else p # obj_set k v ps)"

definition obj_get :: "(string \<times> jsval) list \<Rightarrow> string \<Rightarrow> jsval" where
  "obj_get ps k = (case map_of ps k of None \<Rightarrow> JUndefined | Some v \<Rightarrow> v)"

section \<open>The query string\<close>

text \<open>
  \<^verbatim>\<open>validateQuery\<close>: the first parametrized controller whose key the URL includes; the
  guard reads \<^verbatim>\<open>validationSchema.params\<close>, the schema passed on is
  \<^verbatim>\<open>validationSchema.querystring\<close>.
\<close>

definition validateQuery :: "deps \<Rightarrow> server \<Rightarrow> jsval \<Rightarrow> string \<Rightarrow> js_error + unit" where
  "validateQuery d srv query u =
     map_sum (prefix_message ''VALIDATE_QUERY_ERROR: '') id
       (case filter (\<lambda>val. str_includes u (dc_url val)) (dynamicController srv) of
          [] \<Rightarrow> Inr ()
        | handler # _ \<Rightarrow>
            (case c_options (dc_controller handler) of
               None \<Rightarrow> Inl (TypeError ''Cannot read properties of undefined'')
             | Some opts \<Rightarrow>
                 (case validationSchema opts of
                    None \<Rightarrow> Inr ()
                  | Some vs \<Rightarrow>
                      (case vs_params vs of
                         None \<Rightarrow> Inr ()
                       | Some _ \<Rightarrow> validateObject d query (vs_querystring vs)))))"

text \<open>
  The loop of \<^verbatim>\<open>getQuery\<close> over the pairs: \<^verbatim>\<open>[key, value] = q.split("=")\<close> and
  \<^verbatim>\<open>obj[key] = value\<close>.
\<close>

definition query_pair :: "string \<Rightarrow> string \<times> jsval" where
  "query_pair q =
     (case split_on (CHR ''='') q of
        key # value # _ \<Rightarrow> (key, JStr value)
      | [key] \<Rightarrow> (key, JUndefined)
      | [] \<Rightarrow> ([], JUndefined))"

definition query_object :: "string list \<Rightarrow> (string \<times> jsval) list" where
  "query_object queryPair =
     foldl (\<lambda>obj q. obj_set (fst (query_pair q)) (snd (query_pair q)) obj) [] queryPair"

definition getQuery :: "deps \<Rightarrow> server \<Rightarrow> string option \<Rightarrow> string \<Rightarrow> js_error + jsval" where
  "getQuery d srv key u =
     map_sum (prefix_message ''GET_QUERY_ERROR: '') id
       (if u = [] then Inl (Error ''Url empty'')
        else
          (case split_on (CHR ''?'') u of
             _ # query # _ \<Rightarrow>
               if query = [] then Inl (Error ''Query not found'')
               else
                 (let obj = query_object (split_on (CHR ''&'') query) in
                  case validateQuery d srv (JObj obj) u of
                    Inl error \<Rightarrow> Inl error
                  | Inr _ \<Rightarrow>
                      (case key of
                         Some k \<Rightarrow> if k \<noteq> [] then Inr (JObj [(k, obj_get obj k)]) else Inr (JObj obj)
                       | None \<Rightarrow> Inr (JObj obj)))
           | _ \<Rightarrow> Inl (Error ''Query not found'')))"

text \<open>The part of a text after the first occurrence of a character, and the part before it.\<close>

definition after_first :: "char \<Rightarrow> string \<Rightarrow> string" where
  "after_first c s = tl (dropWhile (\<lambda>x. x \<noteq> c) s)"

definition before_first :: "char \<Rightarrow> string \<Rightarrow> string" where
  "before_first c s = takeWhile (\<lambda>x. x \<noteq> c) s"

section \<open>The payload decoder for urlencoded forms\<close>

text \<open>
  \<^verbatim>\<open>decodeURIComponent\<close> and \<^verbatim>\<open>JSON.parse\<close> are functions of the platform; the model
  takes them as parameters.
\<close>

record platform =
  decodeURIComponent :: "string \<Rightarrow> js_error + string"
  JSON_parse :: "string \<Rightarrow> js_error + jsval"

text \<open>
  The \<^verbatim>\<open>forEach\<close> over the segments; \<open>data\<close> is the array being filled. The value is
  decoded before the key. (A segment that includes \<^verbatim>\<open>=\<close> always splits in two parts at
  least; \<^verbatim>\<open>decodeURIComponent(undefined)\<close> would be the text \<^verbatim>\<open>undefined\<close>.)
\<close>

fun form_loop :: "platform \<Rightarrow> string list \<Rightarrow> jsval list \<Rightarrow> js_error + jsval list" where
  "form_loop pf [] data = Inr data"
| "form_loop pf (i # body) data =
     (if str_includes i ''='' then
        (case decodeURIComponent pf
                (case split_on (CHR ''='') i of _ # value # _ \<Rightarrow> value | _ \<Rightarrow> ''undefined'') of
           Inl error \<Rightarrow> Inl error
         | Inr decodedV \<Rightarrow>
             (case decodeURIComponent pf
                     (case split_on (CHR ''='') i of key # _ \<Rightarrow> key | [] \<Rightarrow> ''undefined'') of
                Inl error \<Rightarrow> Inl error
              | Inr decodedK \<Rightarrow> form_loop pf body (data @ [JObj [(decodedK, JStr decodedV)]])))
      else
        (case JSON_parse pf i of
           Inl error \<Rightarrow> Inl error
         | Inr obj \<Rightarrow> form_loop pf body (data @ [obj])))"

definition handleFormUrlEncoded :: "platform \<Rightarrow> string \<Rightarrow> string \<Rightarrow> js_error + jsval" where
  "handleFormUrlEncoded pf bodyString contentType' =
     map_sum (prefix_message ''HANDLE_FORM_URL_ENCODED_ERROR: '') id
       (case form_loop pf (split_on (CHR ''&'') (replace contentType' [] bodyString)) [] of
          Inl error \<Rightarrow> Inl error
        | Inr data \<Rightarrow>
            if length data > 1 then Inr (JArr data)
            else if length data = 1 then Inr (hd data)
            else Inr JUndefined)"

text \<open>
  The decoder in the words of the spec: each segment on its own, a segment with \<^verbatim>\<open>=\<close>
  gives a one-field object of the decoded key and value, any other segment is parsed as
  JSON; the first failure is the failure of the whole.
\<close>

definition decode_segment :: "platform \<Rightarrow> string \<Rightarrow> js_error + jsval" where
  "decode_segment pf seg =
     (if str_includes seg ''='' then
        (case decodeURIComponent pf (before_first (CHR ''='') (after_first (CHR ''='') seg)) of
           Inl error \<Rightarrow> Inl error
         | Inr v \<Rightarrow>
             (case decodeURIComponent pf (before_first (CHR ''='') seg) of
                Inl error \<Rightarrow> Inl error
              | Inr k \<Rightarrow> Inr (JObj [(k, JStr v)])))
      else JSON_parse pf seg)"

fun decode_all :: "platform \<Rightarrow> string list \<Rightarrow> js_error + jsval list" where
  "decode_all pf [] = Inr []"
| "decode_all pf (seg # segs) =
     (case decode_segment pf seg of
        Inl error \<Rightarrow> Inl error
      | Inr v \<Rightarrow> (case decode_all pf segs of Inl error \<Rightarrow> Inl error | Inr vs \<Rightarrow> Inr (v # vs)))"

definition form_shape :: "jsval list \<Rightarrow> jsval" where
  "form_shape vs = (case vs of [] \<Rightarrow> JUndefined | [v] \<Rightarrow> v | _ \<Rightarrow> JArr vs)"

section \<open>The dispatcher\<close>




definition catch_create :: "deps \<Rightarrow> string \<Rightarrow> completion \<times> world \<Rightarrow> completion \<times> world" where
  "catch_create d nm r =
     (case r of (Throw error, w) \<Rightarrow> (Throw (createError d nm error), w) | (Normal, w) \<Rightarrow> (Normal, w))"








section \<open>The middleware chain\<close>





section \<open>The error boundary and the entry point\<close>

definition handleRequestError :: "deps \<Rightarrow> js_error \<Rightarrow> request \<Rightarrow> hstate \<Rightarrow> hstate" where
  "handleRequestError d error req s =
     (let err = createError d ''HANDLE_REQUEST_ERROR'' error;
          status0 = 500;
          status1 = (if str_includes (message error) (NOT_FOUND d) then 404 else status0);
          status2 = (if str_includes (message error) ''VALIDATE'' then 400 else status1);
          msg = (case JSON_stringify (JObj [(''error'', JBool True), (''message'', JStr (message error))]) of
                   Inl _ \<Rightarrow> None
                 | Inr text \<Rightarrow> map_option Text text);
          hs = headers_set (CONTENT_TYPE d) ''application/json'' [];
          s' = respond \<lparr>rsp_status = status2, rsp_headers = hs, rsp_body = msg\<rparr> s
      in s'\<lparr>console := console s' @ [err]\<rparr>)"


section \<open>The dispatch steps in the words of the spec\<close>









section \<open>Concrete values for evaluating the model\<close>

definition empty_state :: hstate where
  "empty_state = \<lparr>httpStatus = None, contentType = None, response_headers = [], responses = [],
     console = [], rejections = [], clock = ''Tue, 03 Nov 2026 00:00:00 GMT''\<rparr>"

definition bare_server :: server where
  "bare_server = \<lparr>appStatus = ''Fastro'', corsEnabled = False, controller = (\<lambda>k. None),
     dynamicController = [], pages = (\<lambda>k. None), dynamicPage = [], staticFiles = (\<lambda>k. None),
     middlewares = []\<rparr>"

text \<open>
  Modelled from the spec: \<^verbatim>\<open>constant.ts\<close> and \<^verbatim>\<open>utils.ts\<close> are not among the sources.
  An instance of the imports for evaluating examples: the error kind is named
  \<^verbatim>\<open>NOT_FOUND\<close>, \<^verbatim>\<open>createError\<close> names the error and keeps its message, and
  \<^verbatim>\<open>validateObject\<close> fails on the first required field that is missing.
\<close>

definition sample_deps :: deps where
  "sample_deps = \<lparr>NOT_FOUND = ''NOT_FOUND'', CONTENT_TYPE = ''Content-Type'', FASTRO_VERSION = ''0.30.0'',
     createError = (\<lambda>n e. e\<lparr>name := n\<rparr>),
     validateObject = (\<lambda>data sc. case sc of
         None \<Rightarrow> Inl (TypeError ''schema is undefined'')
       | Some sch \<Rightarrow>
          (case data of
             JObj ps \<Rightarrow>
               (case filter (\<lambda>f. map_of ps f = None) (required sch) of
                  [] \<Rightarrow> Inr ()
                | f # _ \<Rightarrow> Inl (Error (''VALIDATION_ERROR: missing '' @ f)))
           | _ \<Rightarrow> Inl (Error ''VALIDATION_ERROR: not an object'')))\<rparr>"

text \<open>
  A platform for evaluating examples: it decodes the texts that hold no escape and parses
  the literals \<^verbatim>\<open>null\<close>, \<^verbatim>\<open>true\<close> and \<^verbatim>\<open>false\<close>, as the real one does, and refuses
  all other texts.
\<close>

definition sample_platform :: platform where
  "sample_platform = \<lparr>
     decodeURIComponent = (\<lambda>t. if CHR ''%'' \<in> set t then Inl (Error ''URI malformed'') else Inr t),
     JSON_parse = (\<lambda>t. if t = ''null'' then Inr JNull
                        else if t = ''true'' then Inr (JBool True)
                        else if t = ''false'' then Inr (JBool False)
                        else Inl (Error ''Unexpected token''))\<rparr>"

text \<open>
  A parametrized controller \<^verbatim>\<open>/hello\<close> that declares a querystring schema (the field
  \<^verbatim>\<open>name\<close> is required) and no params schema.
\<close>

definition name_schema :: schema where
  "name_schema = \<lparr>properties = [(''name'', ''string'')], required = [''name'']\<rparr>"

definition querystring_server :: server where
  "querystring_server = bare_server\<lparr>dynamicController :=
     [\<lparr>dc_url = ''/hello'',
       dc_controller = \<lparr>c_options = Some \<lparr>methods = None,
           validationSchema = Some \<lparr>vs_headers = None, vs_params = None,
             vs_querystring = Some name_schema, vs_body = None\<rparr>\<rparr>,
         c_default = (\<lambda>req s. (Normal, s))\<rparr>\<rparr>]\<rparr>"


definition get_request :: "string \<Rightarrow> request" where
  "get_request u = \<lparr>url = u, req_method = ''GET'', req_headers = [], req_body = []\<rparr>"










section \<open>Strings: properties\<close>

lemma split_on_not_Nil: "split_on c s \<noteq> []"
  by (induction s) (auto split: list.splits)

lemma split_on_first:
  "split_on c s = before_first c s # (if c \<in> set s then split_on c (after_first c s) else [])"
proof (induction s)
  case Nil
  show ?case by (simp add: before_first_def)
next
  case (Cons x xs)
  show ?case
  proof (cases "x = c")
    case True
    then show ?thesis by (simp add: before_first_def after_first_def)
  next
    case False
    then show ?thesis
      using Cons by (simp add: before_first_def after_first_def)
  qed
qed





lemma split_on_second:
  "c \<in> set s \<Longrightarrow> split_on c s =
     before_first c s # before_first c (after_first c s) #
       (if c \<in> set (after_first c s) then split_on c (after_first c (after_first c s)) else [])"
  using split_on_first [of c s] split_on_first [of c "after_first c s"] by simp

lemma str_includes_char: "str_includes s [c] = (c \<in> set s)"
  by (induction s) auto

section \<open>The response sender: properties\<close>











section \<open>The request context: properties\<close>






section \<open>The query string: properties\<close>

text \<open>
  Claim C5 fails on the code. The parametrized controller \<^verbatim>\<open>/hello\<close> declares a
  querystring schema that requires the field \<^verbatim>\<open>name\<close>; the query of
  \<^verbatim>\<open>/hello?age=1\<close> violates it, and \<^verbatim>\<open>getQuery\<close> returns the query all the same: the
  guard of \<^verbatim>\<open>validateQuery\<close> tests the params schema, which this controller does not
  declare. This holds whatever \<^verbatim>\<open>validateObject\<close> does: it is never called.
\<close>

theorem getQuery_skips_querystring_schema:
  "validateObject sample_deps (JObj [(''age'', JStr ''1'')]) (Some name_schema)
     = Inl (Error ''VALIDATION_ERROR: missing name'')
   \<and> getQuery sample_deps querystring_server None ''/hello?age=1'' = Inr (JObj [(''age'', JStr ''1'')])
   \<and> (\<forall>d. getQuery d querystring_server None ''/hello?age=1'' = Inr (JObj [(''age'', JStr ''1'')]))"
proof -
  have v: "validateObject sample_deps (JObj [(''age'', JStr ''1'')]) (Some name_schema)
     = Inl (Error ''VALIDATION_ERROR: missing name'')"
    by (simp add: sample_deps_def name_schema_def)
  have g: "getQuery d querystring_server None ''/hello?age=1'' = Inr (JObj [(''age'', JStr ''1'')])" for d
    by (simp add: getQuery_def validateQuery_def querystring_server_def
        bare_server_def query_object_def query_pair_def Let_def)
  show ?thesis
    using v g by simp
qed




section \<open>The payload decoder: properties\<close>

lemma form_step:
  "form_loop pf (i # body) data =
     (case decode_segment pf i of Inl e \<Rightarrow> Inl e | Inr v \<Rightarrow> form_loop pf body (data @ [v]))"
proof (cases "CHR ''='' \<in> set i")
  case True
  then show ?thesis
    by (simp add: decode_segment_def str_includes_char split_on_second [of "CHR ''=''" i]
        split: sum.splits)
next
  case False
  then show ?thesis
    by (simp add: decode_segment_def str_includes_char split: sum.splits)
qed

lemma form_loop_decode_all:
  "form_loop pf segs data = (case decode_all pf segs of Inl e \<Rightarrow> Inl e | Inr vs \<Rightarrow> Inr (data @ vs))"
proof (induction segs arbitrary: data)
  case Nil
  show ?case by simp
next
  case (Cons i segs)
  show ?case
    by (simp only: form_step Cons decode_all.simps split: sum.splits) (auto split: sum.splits)
qed

text \<open>
  Claim C7, as stated, fails: the decoder does not split the body itself. With the content
  type \<^verbatim>\<open>application/x-www-form-urlencoded\<close> and the body
  \<^verbatim>\<open>x=application/x-www-form-urlencoded\<close> it returns the object that maps \<^verbatim>\<open>x\<close> to the
  empty text, while decoding the segments of the body gives the value
  \<^verbatim>\<open>application/x-www-form-urlencoded\<close>.
\<close>

theorem handleFormUrlEncoded_counterexample:
  "handleFormUrlEncoded sample_platform ''x=application/x-www-form-urlencoded''
       ''application/x-www-form-urlencoded'' = Inr (JObj [(''x'', JStr [])])
   \<and> map_sum id form_shape
        (decode_all sample_platform (split_on (CHR ''&'') ''x=application/x-www-form-urlencoded''))
      = Inr (JObj [(''x'', JStr ''application/x-www-form-urlencoded'')])"
  by (simp add: handleFormUrlEncoded_def sample_platform_def decode_segment_def form_shape_def
      before_first_def after_first_def)

text \<open>
  Claim C7, amended. The body, with the first occurrence of the content type's text
  removed, is split on \<^verbatim>\<open>&\<close>; each segment with \<^verbatim>\<open>=\<close> is URL-decoded on key and value
  into a one-field object, each other segment is parsed as JSON; the first failure is
  rethrown with its message prefixed; otherwise the decoder returns the single object when
  one segment was decoded, the list in order when more were, and \<^verbatim>\<open>undefined\<close> when none
  was.
\<close>

theorem handleFormUrlEncoded_decodes:
  "handleFormUrlEncoded pf bodyString ct =
     (case decode_all pf (split_on (CHR ''&'') (replace ct [] bodyString)) of
        Inl e \<Rightarrow> Inl (prefix_message ''HANDLE_FORM_URL_ENCODED_ERROR: '' e)
      | Inr vs \<Rightarrow> Inr (form_shape vs))"
  by (auto simp: handleFormUrlEncoded_def form_loop_decode_all form_shape_def
      split: sum.splits list.splits)

section \<open>The dispatcher: properties\<close>


lemma catch_create_Normal [simp]: "catch_create d nm (Normal, w) = (Normal, w)"
  by (simp add: catch_create_def)

lemma catch_create_Throw [simp]: "catch_create d nm (Throw e, w) = (Throw (createError d nm e), w)"
  by (simp add: catch_create_def)

















section \<open>The error boundary: properties\<close>

text \<open>
  Claim C3, as stated, fails: for an error whose message contains \<^verbatim>\<open>NOT_FOUND\<close> the
  boundary answers 400, not 404, when the message contains \<^verbatim>\<open>VALIDATE\<close> as well.
\<close>

theorem handleRequestError_counterexample:
  "str_includes (message (Error ''VALIDATE_QUERY_ERROR: NOT_FOUND'')) (NOT_FOUND sample_deps)
   \<and> map rsp_status (responses (handleRequestError sample_deps (Error ''VALIDATE_QUERY_ERROR: NOT_FOUND'')
        (get_request ''/hello?id=1'') empty_state)) = [400]"
  by (simp add: handleRequestError_def respond_def Let_def Error_def sample_deps_def empty_state_def)

text \<open>
  Claim C3, amended. For every error, the boundary writes one response: its status is 400
  if the message contains \<^verbatim>\<open>VALIDATE\<close>, otherwise 404 if the message contains
  \<^verbatim>\<open>NOT_FOUND\<close>, otherwise 500; its only header is the content type
  \<^verbatim>\<open>application/json\<close>; its body is the JSON text of the object with the fields
  \<^verbatim>\<open>error\<close>, true, and \<^verbatim>\<open>message\<close>, the message of the error.
\<close>

theorem handleRequestError_response:
  "responses (handleRequestError d error req s) = responses s @
     [\<lparr>rsp_status = (if str_includes (message error) ''VALIDATE'' then 400
                      else if str_includes (message error) (NOT_FOUND d) then 404 else 500),
       rsp_headers = [(lower (CONTENT_TYPE d), ''application/json'')],
       rsp_body = Some (Text (''{'' @ quote ''error'' @ '':true,'' @ quote ''message'' @ '':''
                               @ quote (message error) @ ''}''))\<rparr>]"
  by (simp add: handleRequestError_def respond_def JSON_stringify_def Let_def)

section \<open>The middleware chain: properties\<close>































end
